theory Spec2Isabelle
  imports Complex_Main "HOL-Library.AList"
begin

section \<open>Python strings and number formatting\<close>

text \<open>
  Strings are byte lists holding the UTF-8 encoding of the Python string. The case
  conversions below act on the ASCII letters and leave every other byte alone; the
  program applies them to the ASCII slider names only.
\<close>

definition ascii_lowercase :: string where
  "ascii_lowercase = ''abcdefghijklmnopqrstuvwxyz''"

definition ascii_uppercase :: string where
  "ascii_uppercase = ''ABCDEFGHIJKLMNOPQRSTUVWXYZ''"

definition upper_char :: "char \<Rightarrow> char" where
  "upper_char c = (case map_of (zip ascii_lowercase ascii_uppercase) c of
                     Some u \<Rightarrow> u | None \<Rightarrow> c)"

definition lower_char :: "char \<Rightarrow> char" where
  "lower_char c = (case map_of (zip ascii_uppercase ascii_lowercase) c of
                     Some l \<Rightarrow> l | None \<Rightarrow> c)"

text \<open>\<^verbatim>\<open>str.upper()\<close> and \<^verbatim>\<open>str.capitalize()\<close>.\<close>

definition upper :: "string \<Rightarrow> string" where
  "upper s = map upper_char s"

definition capitalize :: "string \<Rightarrow> string" where
  "capitalize s = (case s of [] \<Rightarrow> [] | c # cs \<Rightarrow> upper_char c # map lower_char cs)"

text \<open>Decimal digits of a natural number, as \<^verbatim>\<open>str\<close> prints them.\<close>

fun str_nat :: "nat \<Rightarrow> string" where
  "str_nat n = (if n < 10 then [''0123456789'' ! n]
                else str_nat (n div 10) @ [''0123456789'' ! (n mod 10)])"

declare str_nat.simps [simp del]

definition str_int :: "int \<Rightarrow> string" where
  "str_int i = (if i < 0 then ''-'' @ str_nat (nat (- i)) else str_nat (nat i))"

text \<open>
  A finite Python float is modelled by the rational number it denotes.
  \<^verbatim>\<open>int(x)\<close> truncates towards zero.
\<close>

definition py_int :: "rat \<Rightarrow> int" where
  "py_int x = (if 0 \<le> x then \<lfloor>x\<rfloor> else \<lceil>x\<rceil>)"

definition round_half_even :: "rat \<Rightarrow> int" where
  "round_half_even q =
     (let f = \<lfloor>q\<rfloor>; r = q - of_int f
      in if r < 1 / 2 then f
         else if 1 / 2 < r then f + 1
         else if even f then f else f + 1)"

text \<open>
  The format specification \<^verbatim>\<open>.2f\<close>: the value rounded to two decimals (ties to
  even), a minus sign for a negative value, at least one digit before the point.
\<close>

definition fmt_2f :: "rat \<Rightarrow> string" where
  "fmt_2f x =
     (let n = nat (round_half_even (\<bar>x\<bar> * 100))
      in (if x < 0 then ''-'' else [])
         @ str_nat (n div 100) @ ''.''
         @ [''0123456789'' ! (n mod 100 div 10), ''0123456789'' ! (n mod 10)])"

text \<open>
  What \<^verbatim>\<open>DoubleVar.get()\<close> and \<^verbatim>\<open>IntVar.get()\<close> return for a variable whose
  Tcl value is the number \<open>x\<close>: the float itself, and the integer part (tkinter falls
  back to \<^verbatim>\<open>int(getdouble(value))\<close> when the value is not an integer literal, as
  after a \<^verbatim>\<open>ttk.Scale\<close> wrote a float into the variable).
\<close>

definition DoubleVar_get :: "rat \<Rightarrow> rat" where
  "DoubleVar_get x = x"

definition IntVar_get :: "rat \<Rightarrow> int" where
  "IntVar_get x = py_int x"


section \<open>Widgets and program state\<close>

text \<open>
  The callbacks a toolbar button can be built with (\<^verbatim>\<open>cut_tool\<close>, \<^verbatim>\<open>move_tool\<close>,
  \<^verbatim>\<open>add_text_tool\<close>, \<^verbatim>\<open>adjust_tool\<close>).
\<close>

datatype tool_callback = cut_tool | move_tool | add_text_tool | adjust_tool

text \<open>
  A toolbar button as \<^verbatim>\<open>make_toolbar_button\<close> builds it: its text, the \<^verbatim>\<open>pressed\<close>
  flag of its ttk state, and the two values its command closure captured
  (\<^verbatim>\<open>lambda: [command(), select_tool(name)]\<close>).
\<close>

record button =
  btn_text :: string
  pressed :: bool
  cmd_command :: tool_callback
  cmd_name :: string

text \<open>
  A value label next to a slider. \<open>textvariable\<close> is the state of the Tcl variable the
  label was linked to at construction: \<open>No_textvariable\<close> when the option was not
  given, otherwise the content of that variable, \<open>None\<close> once the variable is unset.
\<close>

datatype textvariable = No_textvariable | Tcl_var "string option"

record label =
  lbl_text :: string
  lbl_textvariable :: textvariable

text \<open>
  What a ttk label shows: the value of its text variable is used in place of the
  \<^verbatim>\<open>-text\<close> option whenever a text variable is configured (Tk manual, ttk::widget,
  \<^verbatim>\<open>-textvariable\<close>); a variable that does not exist shows as the empty string.
\<close>

definition displayed :: "label \<Rightarrow> string" where
  "displayed l = (case lbl_textvariable l of
                    No_textvariable \<Rightarrow> lbl_text l
                  | Tcl_var None \<Rightarrow> []
                  | Tcl_var (Some t) \<Rightarrow> t)"

text \<open>The header button of a collapsible section, with its \<^verbatim>\<open>original_text\<close> attribute.\<close>

record toggle_button =
  tgl_text :: string
  original_text :: string

datatype toggle = adjust_toggle | color_toggle

text \<open>The four widgets packed into \<^verbatim>\<open>prop_inner\<close>.\<close>

datatype frame = adjust_header | adjust_frame | color_header | color_frame

record gui =
  status_var :: string
  current_tool :: "string option"
  toolbar_buttons :: "(string \<times> button) list"
  timeline_inner :: "string list"
  prop_inner :: "frame list"
  toggle_buttons :: "toggle \<Rightarrow> toggle_button"
  adjustments_vars :: "(string \<times> rat) list"
  adjust_val_lbls :: "(string \<times> label) list"
  color_vars :: "(string \<times> rat) list"
  color_val_lbls :: "(string \<times> label) list"
  console :: "string list"
  messageboxes :: "(string \<times> string) list"
  quit_requested :: bool

text \<open>
  \<open>timeline_inner\<close> holds the label texts of the blocks gridded into the timeline
  frame, by column; \<open>prop_inner\<close> is the packing list of the properties frame;
  \<open>adjust_val_lbls\<close> and \<open>color_val_lbls\<close> hold, per slider name, the label its
  updater closure captured; \<open>console\<close> is the lines printed so far.
\<close>


section \<open>Helper / placeholder logic and tool callbacks\<close>

definition print :: "string \<Rightarrow> gui \<Rightarrow> gui" where
  "print line s = s\<lparr>console := console s @ [line]\<rparr>"

definition placeholder_action :: "string \<Rightarrow> gui \<Rightarrow> gui" where
  "placeholder_action action_name s =
     print (''[PLACEHOLDER] '' @ action_name) (s\<lparr>status_var := ''Action: '' @ action_name\<rparr>)"

definition select_tool :: "string \<Rightarrow> gui \<Rightarrow> gui" where
  "select_tool tool_name s =
     print (''Selected tool: '' @ tool_name)
       (s\<lparr>current_tool := Some tool_name,
          toolbar_buttons :=
            map (\<lambda>(name, btn). (name, if name = tool_name then btn\<lparr>pressed := True\<rparr>
                                        else btn\<lparr>pressed := False\<rparr>))
                (toolbar_buttons s),
          status_var := ''Selected tool: '' @ tool_name\<rparr>)"

fun run_tool_callback :: "tool_callback \<Rightarrow> gui \<Rightarrow> gui" where
  "run_tool_callback cut_tool s = placeholder_action ''Cut Tool used'' s"
| "run_tool_callback move_tool s = placeholder_action ''Move Tool used'' s"
| "run_tool_callback add_text_tool s = placeholder_action ''Add Text Tool used'' s"
| "run_tool_callback adjust_tool s =
     select_tool ''Adjust'' (placeholder_action ''Adjust Tool selected'' s)"

text \<open>
  \<open>filename\<close> is what the file dialog returned: the empty string when the user
  cancelled it.
\<close>

definition import_video :: "string \<Rightarrow> gui \<Rightarrow> gui" where
  "import_video filename s =
     (if filename \<noteq> [] then placeholder_action (''Imported video: '' @ filename) s else s)"

definition export_video :: "string \<Rightarrow> gui \<Rightarrow> gui" where
  "export_video filename s =
     (if filename \<noteq> [] then placeholder_action (''Exported video to: '' @ filename) s else s)"


section \<open>Adjustment callbacks\<close>

datatype error = KeyError | TclError

definition update_adjustment :: "string \<Rightarrow> gui \<Rightarrow> error + gui" where
  "update_adjustment var_name s =
     (case map_of (adjustments_vars s) var_name of
        None \<Rightarrow> Inl KeyError
      | Some x \<Rightarrow>
          (let val = DoubleVar_get x
           in Inr (print (''[ADJUST] '' @ var_name @ '' = '' @ fmt_2f val)
                     (s\<lparr>status_var := capitalize var_name @ '': '' @ fmt_2f val\<rparr>))))"

definition update_color :: "string \<Rightarrow> gui \<Rightarrow> error + gui" where
  "update_color var_name s =
     (case map_of (color_vars s) var_name of
        None \<Rightarrow> Inl KeyError
      | Some x \<Rightarrow>
          (let val = IntVar_get x
           in Inr (print (''[COLOR] '' @ upper var_name @ '' = '' @ str_int val)
                     (s\<lparr>status_var := upper var_name @ '': '' @ str_int val\<rparr>))))"

text \<open>
  The closures returned by \<^verbatim>\<open>make_updater(v, dest_label)\<close> and
  \<^verbatim>\<open>make_color_updater(v, dest_label)\<close>, run when the variable holds \<open>v\<close>: they pass
  the formatted value as the label's \<^verbatim>\<open>text\<close> option.
\<close>

definition make_updater :: "rat \<Rightarrow> label \<Rightarrow> label" where
  "make_updater v dest_label = dest_label\<lparr>lbl_text := fmt_2f (DoubleVar_get v)\<rparr>"

definition make_color_updater :: "rat \<Rightarrow> label \<Rightarrow> label" where
  "make_color_updater v dest_label = dest_label\<lparr>lbl_text := str_int (IntVar_get v)\<rparr>"

text \<open>
  Writing \<open>x\<close> to the variable of slider \<open>name\<close> (\<^verbatim>\<open>var.set(x)\<close>, or the scale
  widget storing its new position): the value is stored and the write trace registered
  with \<^verbatim>\<open>trace_add\<close> runs the updater on that slider's label.
\<close>

definition set_adjustment_var :: "string \<Rightarrow> rat \<Rightarrow> gui \<Rightarrow> gui" where
  "set_adjustment_var name x s =
     s\<lparr>adjustments_vars := AList.map_entry name (\<lambda>_. x) (adjustments_vars s),
       adjust_val_lbls := AList.map_entry name (make_updater x) (adjust_val_lbls s)\<rparr>"

definition set_color_var :: "string \<Rightarrow> rat \<Rightarrow> gui \<Rightarrow> gui" where
  "set_color_var name x s =
     s\<lparr>color_vars := AList.map_entry name (\<lambda>_. x) (color_vars s),
       color_val_lbls := AList.map_entry name (make_color_updater x) (color_val_lbls s)\<rparr>"


section \<open>Collapsible sections\<close>

text \<open>
  The two prefixes \<^verbatim>\<open>toggle_frame\<close> puts before the original text, byte for byte as
  the string literals on lines 99 and 102 of the source have them (trailing blank
  included).
\<close>

definition collapsed_prefix :: string where
  "collapsed_prefix =
     [CHR 0xE2, CHR 0x80, CHR 0x9A, CHR 0xC3, CHR 0xB1, CHR 0xE2, CHR 0x88, CHR 0xAB] @ '' ''"

definition expanded_prefix :: string where
  "expanded_prefix =
     [CHR 0xE2, CHR 0x80, CHR 0x9A, CHR 0xC3, CHR 0xB1, CHR 0xC2, CHR 0xBA] @ '' ''"

text \<open>
  The packer, for a displayed window whose geometry is up to date (the situation of a
  click on a header button): a child of \<^verbatim>\<open>prop_inner\<close> is viewable exactly when it is
  in the packing list; \<^verbatim>\<open>forget\<close> takes it out of the list; \<^verbatim>\<open>pack\<close> without
  \<^verbatim>\<open>before\<close>/\<^verbatim>\<open>after\<close> leaves a packed widget where it is and puts an unpacked one
  at the end of the list.
\<close>

definition winfo_viewable :: "frame \<Rightarrow> gui \<Rightarrow> bool" where
  "winfo_viewable w s = (w \<in> set (prop_inner s))"

definition forget :: "frame \<Rightarrow> gui \<Rightarrow> gui" where
  "forget w s = s\<lparr>prop_inner := removeAll w (prop_inner s)\<rparr>"

definition pack :: "frame \<Rightarrow> gui \<Rightarrow> gui" where
  "pack w s = (if w \<in> set (prop_inner s) then s else s\<lparr>prop_inner := prop_inner s @ [w]\<rparr>)"

definition configure_text :: "toggle \<Rightarrow> string \<Rightarrow> gui \<Rightarrow> gui" where
  "configure_text b t s =
     s\<lparr>toggle_buttons := (toggle_buttons s)(b := (toggle_buttons s b)\<lparr>tgl_text := t\<rparr>)\<rparr>"

definition toggle_frame :: "frame \<Rightarrow> toggle \<Rightarrow> gui \<Rightarrow> gui" where
  "toggle_frame frame_container toggle_btn s =
     (if winfo_viewable frame_container s
      then configure_text toggle_btn
             (collapsed_prefix @ original_text (toggle_buttons s toggle_btn))
             (forget frame_container s)
      else configure_text toggle_btn
             (expanded_prefix @ original_text (toggle_buttons s toggle_btn))
             (pack frame_container s))"


section \<open>Building the main application\<close>

definition make_toolbar_button ::
  "string \<Rightarrow> string \<Rightarrow> tool_callback \<Rightarrow> (string \<times> button) list \<Rightarrow> (string \<times> button) list" where
  "make_toolbar_button name emoji command tb =
     AList.update name
       \<lparr>btn_text = emoji @ [CHR 0x0A] @ name, pressed = False,
        cmd_command = command, cmd_name = name\<rparr> tb"

text \<open>The four emoji literals of lines 195 to 198, byte for byte.\<close>

definition cut_emoji :: string where
  "cut_emoji = [CHR 0xE2, CHR 0x80, CHR 0x9A, CHR 0xC3, CHR 0xBA, CHR 0xC3, CHR 0x87,
                CHR 0xC3, CHR 0x94, CHR 0xE2, CHR 0x88, CHR 0x8F, CHR 0xC3, CHR 0xA8]"

definition move_emoji :: string where
  "move_emoji = [CHR 0xEF, CHR 0xA3, CHR 0xBF, CHR 0xC3, CHR 0xBC, CHR 0xC3, CHR 0xB1,
                 CHR 0xC2, CHR 0xB1, CHR 0xC3, CHR 0x94, CHR 0xE2, CHR 0x88, CHR 0x8F,
                 CHR 0xC3, CHR 0xA8]"

definition add_text_emoji :: string where
  "add_text_emoji = [CHR 0xEF, CHR 0xA3, CHR 0xBF, CHR 0xC3, CHR 0xBC, CHR 0xC3, CHR 0x96,
                     CHR 0xE2, CHR 0x88, CHR 0x9E, CHR 0xC3, CHR 0x94, CHR 0xE2, CHR 0x88,
                     CHR 0x8F, CHR 0xC3, CHR 0xA8]"

definition adjust_emoji :: string where
  "adjust_emoji = [CHR 0xE2, CHR 0x80, CHR 0x9A, CHR 0xC3, CHR 0xB6, CHR 0xC3, CHR 0xB4,
                   CHR 0xC3, CHR 0x94, CHR 0xE2, CHR 0x88, CHR 0x8F, CHR 0xC3, CHR 0xA8]"

definition populate_timeline :: "string list \<Rightarrow> string list" where
  "populate_timeline blocks =
     foldl (\<lambda>acc i. acc @ [''Clip '' @ str_nat (i + 1) @ [CHR 0x0A]
                              @ ''00:0'' @ str_nat i @ '':00''])
           blocks [0..<12]"

definition adjustment_names :: "string list" where
  "adjustment_names = [''brightness'', ''contrast'', ''shadows'', ''highlights'',
                       ''whites'', ''blacks'', ''levels'']"

definition color_names :: "string list" where
  "color_names = [''r'', ''g'', ''b'']"

text \<open>
  The label of each slider is built with \<^verbatim>\<open>textvariable=tk.StringVar(...)\<close>; the
  \<^verbatim>\<open>StringVar\<close> object is referenced by nothing once the constructor has returned, and
  its finaliser (\<^verbatim>\<open>Variable.__del__\<close>) unsets the Tcl variable.
\<close>

definition new_val_lbl :: label where
  "new_val_lbl = \<lparr>lbl_text = [], lbl_textvariable = Tcl_var None\<rparr>"

text \<open>
  The module state once lines 107 to 360 have run, followed by the call
  \<^verbatim>\<open>select_tool("Move")\<close> of line 363.
\<close>

definition widgets :: gui where
  "widgets =
     \<lparr>status_var = ''Ready'',
      current_tool = None,
      toolbar_buttons =
        make_toolbar_button ''Adjust'' adjust_emoji adjust_tool
          (make_toolbar_button ''Add Text'' add_text_emoji add_text_tool
            (make_toolbar_button ''Move'' move_emoji move_tool
              (make_toolbar_button ''Cut'' cut_emoji cut_tool []))),
      timeline_inner = populate_timeline [],
      prop_inner = [adjust_header, adjust_frame, color_header, color_frame],
      toggle_buttons =
        (\<lambda>b. case b of
               adjust_toggle \<Rightarrow>
                 \<lparr>tgl_text = expanded_prefix @ ''Adjustments'', original_text = ''Adjustments''\<rparr>
             | color_toggle \<Rightarrow>
                 \<lparr>tgl_text = expanded_prefix @ ''Color Mixer'', original_text = ''Color Mixer''\<rparr>),
      adjustments_vars =
        foldl (\<lambda>d name. AList.update name (if name \<noteq> ''levels'' then 0 else 1) d)
              [] adjustment_names,
      adjust_val_lbls =
        foldl (\<lambda>d name. AList.update name new_val_lbl d) [] adjustment_names,
      color_vars = foldl (\<lambda>d name. AList.update name 128 d) [] color_names,
      color_val_lbls = foldl (\<lambda>d name. AList.update name new_val_lbl d) [] color_names,
      console = [],
      messageboxes = [],
      quit_requested = False\<rparr>"

definition build :: gui where
  "build = select_tool ''Move'' widgets"

text \<open>
  Line 111 (\<^verbatim>\<open>root.iconbitmap("icon.ico")\<close>) raises \<^verbatim>\<open>TclError\<close> when the icon cannot
  be loaded, and the module stops there; otherwise the main loop starts in \<open>build\<close>.
\<close>

definition startup :: "bool \<Rightarrow> error + gui" where
  "startup icon_loads = (if icon_loads then Inr build else Inl TclError)"


section \<open>User input\<close>

datatype menu_item = New_Project | Open_Project | Save_Project | Exit | Undo | Redo | About

datatype playback_button = Prev | Play_Pause | Next

text \<open>
  \<open>Import_click f\<close> and \<open>Export_click f\<close> are a click on the button together with the
  answer \<open>f\<close> of the file dialog it opens; \<open>Scale_adjust n x\<close> and \<open>Scale_color n x\<close>
  are the slider \<open>n\<close> moved to \<open>x\<close>.
\<close>

datatype event =
    Tool_click string
  | Import_click string
  | Export_click string
  | Menu_click menu_item
  | Playback_click playback_button
  | Toggle_click toggle
  | Scale_adjust string rat
  | Scale_color string rat
  | Key_ctrl_s
  | Key_ctrl_q

definition about_text :: string where
  "about_text = ''MiniVideo '' @ [CHR 0xE2, CHR 0x80, CHR 0x9A, CHR 0xC3, CHR 0x84, CHR 0xC3, CHR 0xAE]
                @ '' Prototype'' @ [CHR 0x0A] @ ''Tkinter Video Editor GUI''"

fun menu_command :: "menu_item \<Rightarrow> gui \<Rightarrow> gui" where
  "menu_command New_Project s = placeholder_action ''New Project'' s"
| "menu_command Open_Project s = placeholder_action ''Open Project'' s"
| "menu_command Save_Project s = placeholder_action ''Save Project'' s"
| "menu_command Exit s = s\<lparr>quit_requested := True\<rparr>"
| "menu_command Undo s = placeholder_action ''Undo'' s"
| "menu_command Redo s = placeholder_action ''Redo'' s"
| "menu_command About s = s\<lparr>messageboxes := messageboxes s @ [(''About'', about_text)]\<rparr>"

fun playback_command :: "playback_button \<Rightarrow> gui \<Rightarrow> gui" where
  "playback_command Prev s = placeholder_action ''Prev Frame'' s"
| "playback_command Play_Pause s = placeholder_action ''Play/Pause'' s"
| "playback_command Next s = placeholder_action ''Next Frame'' s"

text \<open>
  The command of the toolbar button registered under \<open>n\<close>:
  \<^verbatim>\<open>lambda: [command(), select_tool(name)]\<close>.
\<close>

definition toolbar_command :: "string \<Rightarrow> gui \<Rightarrow> gui" where
  "toolbar_command n s =
     (case map_of (toolbar_buttons s) n of
        None \<Rightarrow> s
      | Some btn \<Rightarrow> select_tool (cmd_name btn) (run_tool_callback (cmd_command btn) s))"

text \<open>
  A scale stores its new position in the linked variable and then runs its command.
  An exception raised in a callback is reported by tkinter and the event loop goes on.
\<close>

fun step :: "event \<Rightarrow> gui \<Rightarrow> gui" where
  "step (Tool_click n) s = toolbar_command n s"
| "step (Import_click filename) s = import_video filename s"
| "step (Export_click filename) s = export_video filename s"
| "step (Menu_click m) s = menu_command m s"
| "step (Playback_click p) s = playback_command p s"
| "step (Toggle_click adjust_toggle) s = toggle_frame adjust_frame adjust_toggle s"
| "step (Toggle_click color_toggle) s = toggle_frame color_frame color_toggle s"
| "step (Scale_adjust n x) s =
     (let s' = set_adjustment_var n x s
      in case update_adjustment n s' of Inr s'' \<Rightarrow> s'' | Inl e \<Rightarrow> s')"
| "step (Scale_color n x) s =
     (let s' = set_color_var n x s
      in case update_color n s' of Inr s'' \<Rightarrow> s'' | Inl e \<Rightarrow> s')"
| "step Key_ctrl_s s = placeholder_action ''Save Project'' s"
| "step Key_ctrl_q s = s\<lparr>quit_requested := True\<rparr>"

definition run :: "event list \<Rightarrow> gui \<Rightarrow> gui" where
  "run es s = foldl (\<lambda>s e. step e s) s es"


section \<open>The toolbar as built\<close>

text \<open>
  What the command closures of the toolbar buttons captured, per dictionary key. The
  dictionary is filled by the four calls of \<^verbatim>\<open>make_toolbar_button\<close> and nothing
  registers or removes a button afterwards.
\<close>

definition registered :: "(string \<times> button) list \<Rightarrow> (string \<times> tool_callback \<times> string) list" where
  "registered tb = map (\<lambda>(n, b). (n, cmd_command b, cmd_name b)) tb"

definition toolbar_as_built :: "gui \<Rightarrow> bool" where
  "toolbar_as_built s =
     (registered (toolbar_buttons s) =
        [(''Cut'', cut_tool, ''Cut''), (''Move'', move_tool, ''Move''),
         (''Add Text'', add_text_tool, ''Add Text''), (''Adjust'', adjust_tool, ''Adjust'')])"

text \<open>
  The names of the toolbar buttons whose \<^verbatim>\<open>pressed\<close> flag is set, in dictionary order,
  and the selection being exclusive: a tool is current and its button is the one
  pressed button.
\<close>

definition pressed_buttons :: "gui \<Rightarrow> string list" where
  "pressed_buttons s = map fst (filter (\<lambda>(name, btn). pressed btn) (toolbar_buttons s))"

definition tool_names :: "string list" where
  "tool_names = [''Cut'', ''Move'', ''Add Text'', ''Adjust'']"

definition exclusive :: "gui \<Rightarrow> bool" where
  "exclusive s = (case current_tool s of None \<Rightarrow> False | Some t \<Rightarrow> pressed_buttons s = [t])"

text \<open>The label text of timeline block \<open>i\<close>: the f-string of line 259.\<close>

definition clip_label :: "nat \<Rightarrow> string" where
  "clip_label i = ''Clip '' @ str_nat (i + 1) @ [CHR 0x0A] @ ''00:0'' @ str_nat i @ '':00''"


section \<open>Properties\<close>

subsection \<open>Auxiliary facts\<close>

lemma placeholder_action_eq:
  "placeholder_action a s =
     s\<lparr>status_var := ''Action: '' @ a, console := console s @ [''[PLACEHOLDER] '' @ a]\<rparr>"
  by (simp add: placeholder_action_def print_def)

lemma registered_select_tool:
  "registered (toolbar_buttons (select_tool t s)) = registered (toolbar_buttons s)"
  by (simp add: select_tool_def print_def registered_def split_def)

lemma toolbar_buttons_placeholder:
  "toolbar_buttons (placeholder_action a s) = toolbar_buttons s"
  by (simp add: placeholder_action_eq)

lemma registered_run_tool_callback:
  "registered (toolbar_buttons (run_tool_callback c s)) = registered (toolbar_buttons s)"
  by (cases c) (simp_all add: registered_select_tool toolbar_buttons_placeholder)

lemma registered_widgets:
  "registered (toolbar_buttons widgets) =
     [(''Cut'', cut_tool, ''Cut''), (''Move'', move_tool, ''Move''),
      (''Add Text'', add_text_tool, ''Add Text''), (''Adjust'', adjust_tool, ''Adjust'')]"
  by (simp add: widgets_def make_toolbar_button_def registered_def)

lemma toolbar_as_built_build: "toolbar_as_built build"
  unfolding toolbar_as_built_def build_def registered_select_tool by (rule registered_widgets)

lemma map_of_registered:
  "map_of (registered tb) n = map_option (\<lambda>b. (cmd_command b, cmd_name b)) (map_of tb n)"
  by (induction tb) (auto simp: registered_def)

lemma toolbar_command_registered:
  assumes "map_of (registered (toolbar_buttons s)) n = Some (c, m)"
  shows "toolbar_command n s = select_tool m (run_tool_callback c s)"
proof -
  from assms obtain b where "map_of (toolbar_buttons s) n = Some b"
    and "cmd_command b = c" and "cmd_name b = m"
    by (auto simp: map_of_registered)
  then show ?thesis by (simp add: toolbar_command_def)
qed

lemma toolbar_command_as_built:
  assumes "toolbar_as_built s"
  shows "toolbar_command ''Cut'' s = select_tool ''Cut'' (placeholder_action ''Cut Tool used'' s)"
    and "toolbar_command ''Move'' s = select_tool ''Move'' (placeholder_action ''Move Tool used'' s)"
    and "toolbar_command ''Add Text'' s =
           select_tool ''Add Text'' (placeholder_action ''Add Text Tool used'' s)"
    and "toolbar_command ''Adjust'' s =
           select_tool ''Adjust'' (select_tool ''Adjust'' (placeholder_action ''Adjust Tool selected'' s))"
  using assms by (simp_all add: toolbar_as_built_def toolbar_command_registered)

lemma adjustments_vars_build:
  "adjustments_vars build =
     [(''brightness'', 0), (''contrast'', 0), (''shadows'', 0), (''highlights'', 0),
      (''whites'', 0), (''blacks'', 0), (''levels'', 1)]"
  by (simp add: build_def select_tool_def print_def widgets_def adjustment_names_def)

lemma color_vars_build:
  "color_vars build = [(''r'', 128), (''g'', 128), (''b'', 128)]"
  by (simp add: build_def select_tool_def print_def widgets_def color_names_def)

lemma capitalize_brightness: "capitalize ''brightness'' = ''Brightness''"
  by (simp add: capitalize_def upper_char_def lower_char_def ascii_lowercase_def
        ascii_uppercase_def)

lemma upper_r: "upper ''r'' = ''R''"
  by (simp add: upper_def upper_char_def ascii_lowercase_def ascii_uppercase_def)

lemma fmt_2f_0: "fmt_2f 0 = ''0.00''"
  by (simp add: fmt_2f_def round_half_even_def str_nat.simps)

lemma fmt_2f_5: "fmt_2f 5 = ''5.00''"
  by (simp add: fmt_2f_def round_half_even_def str_nat.simps)

lemma str_int_128: "str_int (py_int 128) = ''128''"
  by (simp add: str_int_def py_int_def str_nat.simps)

lemma str_int_200: "str_int (py_int 200) = ''200''"
  by (simp add: str_int_def py_int_def str_nat.simps)


lemma select_tool_fields:
  "status_var (select_tool t s) = ''Selected tool: '' @ t"
  "current_tool (select_tool t s) = Some t"
  "console (select_tool t s) = console s @ [''Selected tool: '' @ t]"
  "map fst (toolbar_buttons (select_tool t s)) = map fst (toolbar_buttons s)"
  by (simp_all add: select_tool_def print_def split_def)

lemma pressed_buttons_select_tool:
  "pressed_buttons (select_tool t s) = filter (\<lambda>n. n = t) (map fst (toolbar_buttons s))"
proof -
  have "map fst (filter (\<lambda>(name, btn). pressed btn)
          (map (\<lambda>(name, btn). (name, if name = t then btn\<lparr>pressed := True\<rparr>
                                      else btn\<lparr>pressed := False\<rparr>)) tb))
        = filter (\<lambda>n. n = t) (map fst tb)" for tb :: "(string \<times> button) list"
    by (induction tb) (auto split: if_splits)
  then show ?thesis
    by (simp add: pressed_buttons_def select_tool_def print_def)
qed

lemma keys_as_built:
  "toolbar_as_built s \<Longrightarrow> map fst (toolbar_buttons s) = tool_names"
proof -
  assume "toolbar_as_built s"
  then have "map fst (registered (toolbar_buttons s)) = tool_names"
    by (simp add: toolbar_as_built_def tool_names_def)
  moreover have "map fst (registered tb) = map fst tb" for tb
    by (simp add: registered_def split_def)
  ultimately show ?thesis by simp
qed

lemma filter_tool_names: "t \<in> set tool_names \<Longrightarrow> filter (\<lambda>n. n = t) tool_names = [t]"
  by (auto simp: tool_names_def)

lemma toolbar_buttons_toggle_frame:
  "toolbar_buttons (toggle_frame f b s) = toolbar_buttons s"
  "current_tool (toggle_frame f b s) = current_tool s"
  "status_var (toggle_frame f b s) = status_var s"
  by (simp_all add: toggle_frame_def configure_text_def forget_def pack_def)

lemma toolbar_buttons_scale:
  "toolbar_buttons (step (Scale_adjust n x) s) = toolbar_buttons s"
  "current_tool (step (Scale_adjust n x) s) = current_tool s"
  "toolbar_buttons (step (Scale_color n x) s) = toolbar_buttons s"
  "current_tool (step (Scale_color n x) s) = current_tool s"
  by (simp_all add: update_adjustment_def update_color_def set_adjustment_var_def
        set_color_var_def print_def Let_def split: option.splits)

lemma import_export_fields:
  "toolbar_buttons (import_video f s) = toolbar_buttons s"
  "current_tool (import_video f s) = current_tool s"
  "toolbar_buttons (export_video f s) = toolbar_buttons s"
  "current_tool (export_video f s) = current_tool s"
  by (simp_all add: import_video_def export_video_def placeholder_action_eq)

lemma menu_playback_fields:
  "toolbar_buttons (menu_command m s) = toolbar_buttons s"
  "current_tool (menu_command m s) = current_tool s"
  "toolbar_buttons (playback_command p s) = toolbar_buttons s"
  "current_tool (playback_command p s) = current_tool s"
  by (cases m; cases p; simp add: placeholder_action_eq)+

lemma other_events_keep_selection:
  "\<not> (\<exists>n. e = Tool_click n) \<Longrightarrow>
     toolbar_buttons (step e s) = toolbar_buttons s \<and> current_tool (step e s) = current_tool s"
proof (cases e)
  case (Toggle_click b)
  then show ?thesis by (cases b) (simp_all add: toolbar_buttons_toggle_frame)
qed (simp_all add: import_export_fields menu_playback_fields toolbar_buttons_scale
       placeholder_action_eq del: step.simps(8,9))

lemma registered_step:
  "registered (toolbar_buttons (step e s)) = registered (toolbar_buttons s)"
proof (cases "\<exists>n. e = Tool_click n")
  case True
  then obtain n where "e = Tool_click n" by blast
  then show ?thesis
    by (simp add: toolbar_command_def registered_select_tool registered_run_tool_callback
          split: option.splits)
next
  case False
  then show ?thesis by (simp add: other_events_keep_selection)
qed

lemma toolbar_as_built_step: "toolbar_as_built s \<Longrightarrow> toolbar_as_built (step e s)"
  by (simp add: toolbar_as_built_def registered_step)

lemma run_snoc: "run (es @ [e]) s = step e (run es s)"
  by (simp add: run_def)

lemma toolbar_as_built_run: "toolbar_as_built s \<Longrightarrow> toolbar_as_built (run es s)"
  by (induction es rule: rev_induct) (simp_all add: run_snoc toolbar_as_built_step, simp add: run_def)

lemma map_of_registered_tool:
  assumes "toolbar_as_built s" and "t \<in> set tool_names"
  shows "\<exists>c. map_of (registered (toolbar_buttons s)) t = Some (c, t)"
  using assms by (auto simp: toolbar_as_built_def tool_names_def)

lemma tool_click_selects:
  assumes "toolbar_as_built s" and "t \<in> set tool_names"
  shows "pressed_buttons (step (Tool_click t) s) = [t]"
    and "current_tool (step (Tool_click t) s) = Some t"
    and "status_var (step (Tool_click t) s) = ''Selected tool: '' @ t"
proof -
  from map_of_registered_tool [OF assms] obtain c
    where c: "map_of (registered (toolbar_buttons s)) t = Some (c, t)" ..
  have eq: "toolbar_command t s = select_tool t (run_tool_callback c s)"
    by (rule toolbar_command_registered [OF c])
  have "toolbar_as_built (run_tool_callback c s)"
    using assms(1) by (simp add: toolbar_as_built_def registered_run_tool_callback)
  then have "map fst (toolbar_buttons (run_tool_callback c s)) = tool_names"
    by (rule keys_as_built)
  then show "pressed_buttons (step (Tool_click t) s) = [t]"
    using assms(2) by (simp add: eq pressed_buttons_select_tool filter_tool_names)
  show "current_tool (step (Tool_click t) s) = Some t"
    and "status_var (step (Tool_click t) s) = ''Selected tool: '' @ t"
    by (simp_all add: eq select_tool_fields)
qed

lemma exclusive_step:
  assumes "toolbar_as_built s" and "exclusive s"
  shows "exclusive (step e s)"
proof (cases "\<exists>n. e = Tool_click n")
  case True
  then obtain n where e: "e = Tool_click n" by blast
  show ?thesis
  proof (cases "n \<in> set tool_names")
    case True
    then show ?thesis
      using tool_click_selects [OF assms(1) True] by (simp add: exclusive_def e)
  next
    case False
    then have "n \<notin> fst ` set (toolbar_buttons s)"
      using keys_as_built [OF assms(1)] by (metis set_map)
    then have "map_of (toolbar_buttons s) n = None"
      by (simp add: map_of_eq_None_iff)
    then show ?thesis using assms(2) by (simp add: e toolbar_command_def)
  qed
next
  case False
  then show ?thesis
    using assms(2) other_events_keep_selection [OF False, of s]
    by (simp add: exclusive_def pressed_buttons_def split: option.splits)
qed

lemma toolbar_as_built_widgets: "toolbar_as_built widgets"
  by (simp add: toolbar_as_built_def registered_widgets)

lemma exclusive_build: "exclusive build"
  by (simp add: exclusive_def build_def select_tool_fields pressed_buttons_select_tool
        keys_as_built [OF toolbar_as_built_widgets] filter_tool_names tool_names_def)


lemma toolbar_buttons_build_keys: "map fst (toolbar_buttons build) = tool_names"
  by (rule keys_as_built [OF toolbar_as_built_build])

lemma exclusive_run:
  "toolbar_as_built s \<Longrightarrow> exclusive s \<Longrightarrow> exclusive (run es s)"
proof (induction es rule: rev_induct)
  case Nil
  then show ?case by (simp add: run_def)
next
  case (snoc e es)
  then show ?case
    by (simp add: run_snoc exclusive_step toolbar_as_built_run)
qed

lemma tool_clicks_select_last:
  assumes "toolbar_as_built s" and "ts \<noteq> []" and "set ts \<subseteq> set tool_names"
  shows "pressed_buttons (run (map Tool_click ts) s) = [last ts]
         \<and> current_tool (run (map Tool_click ts) s) = Some (last ts)
         \<and> status_var (run (map Tool_click ts) s) = ''Selected tool: '' @ last ts"
proof -
  from assms(2) obtain us t where ts: "ts = us @ [t]"
    by (metis rev_exhaust)
  with assms(3) have t: "t \<in> set tool_names" by simp
  have built: "toolbar_as_built (run (map Tool_click us) s)"
    using assms(1) by (rule toolbar_as_built_run)
  show ?thesis
    using tool_click_selects [OF built t] by (simp add: ts run_snoc del: step.simps)
qed


lemma foldl_append_one: "foldl (\<lambda>acc i. acc @ [f i]) acc xs = acc @ map f xs"
  by (induction xs arbitrary: acc) simp_all

lemma populate_timeline_eq: "populate_timeline blocks = blocks @ map clip_label [0..<12]"
proof -
  have "populate_timeline blocks = foldl (\<lambda>acc i. acc @ [clip_label i]) blocks [0..<12]"
    by (simp only: populate_timeline_def clip_label_def)
  then show ?thesis by (simp only: foldl_append_one)
qed

lemma timeline_inner_build: "timeline_inner build = map clip_label [0..<12]"
  by (simp add: build_def select_tool_def print_def widgets_def populate_timeline_eq)

lemma timeline_inner_step: "timeline_inner (step e s) = timeline_inner s"
proof (cases e)
  case (Tool_click n)
  have "timeline_inner (run_tool_callback c s) = timeline_inner s" for c
    by (cases c) (simp_all add: placeholder_action_eq select_tool_def print_def)
  then show ?thesis
    by (simp add: Tool_click toolbar_command_def select_tool_def print_def split: option.splits)
next
  case (Menu_click m)
  then show ?thesis by (cases m) (simp_all add: placeholder_action_eq)
next
  case (Playback_click p)
  then show ?thesis by (cases p) (simp_all add: placeholder_action_eq)
next
  case (Toggle_click b)
  then show ?thesis
    by (cases b) (simp_all add: toggle_frame_def configure_text_def forget_def pack_def)
qed (simp_all add: import_video_def export_video_def placeholder_action_eq
       update_adjustment_def update_color_def set_adjustment_var_def set_color_var_def
       print_def Let_def split: option.splits)

lemma timeline_inner_run: "timeline_inner (run es s) = timeline_inner s"
  by (induction es rule: rev_induct) (simp_all add: run_snoc timeline_inner_step, simp add: run_def)

lemma clip_label_0: "clip_label 0 = ''Clip 1'' @ [CHR 0x0A] @ ''00:00:00''"
  by (simp add: clip_label_def str_nat.simps)

lemma clip_label_11: "clip_label 11 = ''Clip 12'' @ [CHR 0x0A] @ ''00:011:00''"
  by (simp add: clip_label_def str_nat.simps)


lemma toggle_frame_eq:
  "toggle_frame f b s =
     s\<lparr>prop_inner := (if f \<in> set (prop_inner s) then removeAll f (prop_inner s)
                       else prop_inner s @ [f]),
       toggle_buttons := (toggle_buttons s)
         (b := (toggle_buttons s b)
            \<lparr>tgl_text := (if f \<in> set (prop_inner s) then collapsed_prefix else expanded_prefix)
                           @ original_text (toggle_buttons s b)\<rparr>)\<rparr>"
  by (simp add: toggle_frame_def winfo_viewable_def forget_def pack_def configure_text_def)

lemma filter_removeAll_same: "filter (\<lambda>w. w \<noteq> f) (removeAll f xs) = filter (\<lambda>w. w \<noteq> f) xs"
  by (induction xs) simp_all

lemma prop_inner_build:
  "prop_inner build = [adjust_header, adjust_frame, color_header, color_frame]"
  by (simp add: build_def select_tool_def print_def widgets_def)

lemma toggle_buttons_build:
  "toggle_buttons build adjust_toggle =
     \<lparr>tgl_text = expanded_prefix @ ''Adjustments'', original_text = ''Adjustments''\<rparr>"
  "toggle_buttons build color_toggle =
     \<lparr>tgl_text = expanded_prefix @ ''Color Mixer'', original_text = ''Color Mixer''\<rparr>"
  by (simp_all add: build_def select_tool_def print_def widgets_def)

lemma toggle_twice_repacks_last:
  "prop_inner (toggle_frame adjust_frame adjust_toggle
                (toggle_frame adjust_frame adjust_toggle build))
     = [adjust_header, color_header, color_frame, adjust_frame]"
  by (simp add: toggle_frame_eq prop_inner_build)


lemma status_var_build: "status_var build = ''Selected tool: Move''"
  by (simp add: build_def select_tool_fields)

lemma status_var_toggle_click: "status_var (step (Toggle_click b) s) = status_var s"
  by (cases b) (simp_all add: toolbar_buttons_toggle_frame)

lemma status_var_placeholder: "status_var (placeholder_action a s) = ''Action: '' @ a"
  by (simp add: placeholder_action_eq)

lemma displayed_make_updater:
  "displayed (make_updater v l) =
     (case lbl_textvariable l of No_textvariable \<Rightarrow> fmt_2f v
      | Tcl_var c \<Rightarrow> displayed l)"
  by (simp add: displayed_def make_updater_def DoubleVar_get_def split: textvariable.splits)

lemma displayed_make_color_updater:
  "displayed (make_color_updater v l) =
     (case lbl_textvariable l of No_textvariable \<Rightarrow> str_int (py_int v)
      | Tcl_var c \<Rightarrow> displayed l)"
  by (simp add: displayed_def make_color_updater_def IntVar_get_def split: textvariable.splits)

lemma adjust_val_lbls_build:
  "adjust_val_lbls build = map (\<lambda>n. (n, new_val_lbl)) adjustment_names"
  by (simp add: build_def select_tool_def print_def widgets_def adjustment_names_def)

lemma color_val_lbls_build:
  "color_val_lbls build = map (\<lambda>n. (n, new_val_lbl)) color_names"
  by (simp add: build_def select_tool_def print_def widgets_def color_names_def)


subsection \<open>The placeholder action\<close>

text \<open>
  Claim C5. For every action name \<open>a\<close>, \<^verbatim>\<open>placeholder_action(a)\<close> sets the status text
  to \<open>Action: \<close> followed by \<open>a\<close>, prints one line to the console, and leaves every
  other component of the program state as it was.
\<close>

theorem placeholder_action_only_status:
  "placeholder_action a s =
     s\<lparr>status_var := ''Action: '' @ a, console := console s @ [''[PLACEHOLDER] '' @ a]\<rparr>
   \<and> status_var (placeholder_action a s) = ''Action: '' @ a"
  by (simp add: placeholder_action_eq)


subsection \<open>Import and export\<close>

text \<open>
  Claim C6. When the file dialog returns a non-empty path \<open>p\<close>, \<^verbatim>\<open>import_video\<close>
  (\<^verbatim>\<open>export_video\<close>) does nothing but report \<open>Imported video: p\<close>
  (\<open>Exported video to: p\<close>) through the placeholder action: the path only appears in
  the status text and the console line. When the dialog returns the empty string, the
  whole state is unchanged.
\<close>

theorem import_export_only_report:
  "(p \<noteq> [] \<longrightarrow>
      import_video p s =
        s\<lparr>status_var := ''Action: Imported video: '' @ p,
          console := console s @ [''[PLACEHOLDER] Imported video: '' @ p]\<rparr>
      \<and> export_video p s =
        s\<lparr>status_var := ''Action: Exported video to: '' @ p,
          console := console s @ [''[PLACEHOLDER] Exported video to: '' @ p]\<rparr>)
   \<and> import_video [] s = s \<and> export_video [] s = s"
  by (simp add: import_video_def export_video_def placeholder_action_eq)

theorem import_export_only_report_witness:
  "''clip.mp4'' \<noteq> []
   \<and> status_var (import_video ''clip.mp4'' build) = ''Action: Imported video: clip.mp4''
   \<and> status_var (export_video ''clip.mp4'' build) = ''Action: Exported video to: clip.mp4''
   \<and> import_video [] build = build"
  using import_export_only_report [of "''clip.mp4''" build] by simp


subsection \<open>Slider change handlers\<close>

text \<open>
  Claim C4. For an adjustment slider named \<open>n\<close> whose variable holds \<open>v\<close>,
  \<^verbatim>\<open>update_adjustment\<close> sets the status text to \<open>n\<close> capitalised, a colon and a
  blank, and \<open>v\<close> with two decimals; for a colour slider, \<^verbatim>\<open>update_color\<close> sets it
  to \<open>n\<close> in upper case, a colon and a blank, and \<open>int(v)\<close>. Besides the status text
  only the console, which receives the printed line, differs afterwards.
\<close>

theorem update_handlers_only_status:
  "(map_of (adjustments_vars s) n = Some v \<longrightarrow>
      update_adjustment n s =
        Inr (s\<lparr>status_var := capitalize n @ '': '' @ fmt_2f v,
               console := console s @ [''[ADJUST] '' @ n @ '' = '' @ fmt_2f v]\<rparr>))
   \<and> (map_of (color_vars s) n = Some v \<longrightarrow>
      update_color n s =
        Inr (s\<lparr>status_var := upper n @ '': '' @ str_int (py_int v),
               console := console s @ [''[COLOR] '' @ upper n @ '' = '' @ str_int (py_int v)]\<rparr>))"
  by (simp add: update_adjustment_def update_color_def print_def DoubleVar_get_def
        IntVar_get_def Let_def)

theorem update_handlers_only_status_witness:
  "map_of (adjustments_vars build) ''brightness'' = Some 0
   \<and> update_adjustment ''brightness'' build =
        Inr (build\<lparr>status_var := ''Brightness: 0.00'',
                   console := console build @ [''[ADJUST] brightness = 0.00'']\<rparr>)
   \<and> map_of (color_vars build) ''r'' = Some 128
   \<and> update_color ''r'' build =
        Inr (build\<lparr>status_var := ''R: 128'',
                   console := console build @ [''[COLOR] R = 128'']\<rparr>)"
  using update_handlers_only_status [of build "''brightness''" 0]
    update_handlers_only_status [of build "''r''" 128]
  by (simp add: adjustments_vars_build color_vars_build capitalize_brightness upper_r
        fmt_2f_0 str_int_128)


subsection \<open>The state at startup\<close>

text \<open>
  Claim C10. When the module has been loaded (the icon could be read), the current tool
  is \<open>Move\<close> and the status text is \<open>Selected tool: Move\<close>: the status variable is
  created with \<open>Ready\<close>, and the call \<^verbatim>\<open>select_tool("Move")\<close> that follows overwrites
  it before the main loop starts.
\<close>

theorem startup_selects_move:
  "startup True = Inr build
   \<and> status_var widgets = ''Ready''
   \<and> (startup icon_loads = Inr s \<longrightarrow>
        current_tool s = Some ''Move'' \<and> status_var s = ''Selected tool: Move''
        \<and> status_var s \<noteq> ''Ready'')"
  by (auto simp: startup_def build_def select_tool_def print_def widgets_def)

theorem startup_selects_move_witness:
  "startup True = Inr build
   \<and> current_tool build = Some ''Move'' \<and> status_var build = ''Selected tool: Move''"
  using startup_selects_move [of True build] by simp


subsection \<open>Toolbar buttons\<close>

text \<open>
  Claim C3. With the toolbar as built, a click on Cut, Move, Add Text or Adjust runs the
  button's placeholder handler and then \<^verbatim>\<open>select_tool\<close> with the button's name, so
  that the current tool is that name and the status text ends as \<open>Selected tool: \<close>
  followed by it. A click on Import or Export, whatever the file dialog answers, leaves
  the current tool and the toolbar buttons as they were.
\<close>

theorem tool_buttons_set_current_tool:
  "(toolbar_as_built s \<longrightarrow>
      step (Tool_click ''Cut'') s = select_tool ''Cut'' (placeholder_action ''Cut Tool used'' s)
    \<and> step (Tool_click ''Move'') s = select_tool ''Move'' (placeholder_action ''Move Tool used'' s)
    \<and> step (Tool_click ''Add Text'') s =
        select_tool ''Add Text'' (placeholder_action ''Add Text Tool used'' s)
    \<and> step (Tool_click ''Adjust'') s =
        select_tool ''Adjust''
          (select_tool ''Adjust'' (placeholder_action ''Adjust Tool selected'' s))
    \<and> (n \<in> set tool_names \<longrightarrow>
          current_tool (step (Tool_click n) s) = Some n
        \<and> status_var (step (Tool_click n) s) = ''Selected tool: '' @ n))
   \<and> current_tool (step (Import_click f) s) = current_tool s
   \<and> current_tool (step (Export_click f) s) = current_tool s
   \<and> toolbar_buttons (step (Import_click f) s) = toolbar_buttons s
   \<and> toolbar_buttons (step (Export_click f) s) = toolbar_buttons s"
proof -
  have tools: "current_tool (step (Tool_click n) s) = Some n
               \<and> status_var (step (Tool_click n) s) = ''Selected tool: '' @ n"
    if "toolbar_as_built s" and "n \<in> set tool_names"
    using tool_click_selects [OF that] by simp
  show ?thesis
    using tools by (simp add: toolbar_command_as_built import_export_fields)
qed

theorem tool_buttons_set_current_tool_witness:
  "toolbar_as_built build \<and> ''Cut'' \<in> set tool_names
   \<and> step (Tool_click ''Cut'') build =
       select_tool ''Cut'' (placeholder_action ''Cut Tool used'' build)
   \<and> current_tool (step (Tool_click ''Cut'') build) = Some ''Cut''
   \<and> status_var (step (Tool_click ''Cut'') build) = ''Selected tool: Cut''
   \<and> current_tool (step (Import_click ''clip.mp4'') build) = current_tool build"
  using tool_buttons_set_current_tool [of build "''Cut''" "''clip.mp4''"] toolbar_as_built_build
  by (simp add: tool_names_def select_tool_fields del: step.simps)


subsection \<open>Exclusive selection\<close>

text \<open>
  Claim C9. With the toolbar as built and \<open>t\<close> a registered button name, after
  \<^verbatim>\<open>select_tool(t)\<close> the pressed toolbar buttons are exactly the one named \<open>t\<close>,
  the current tool is \<open>t\<close> and the status text is \<open>Selected tool: \<close> followed by
  \<open>t\<close>. After every non-empty sequence of tool-button clicks from the startup state
  this holds for the last button clicked, and after every sequence of user inputs of
  any kind exactly the button of the current tool is pressed.
\<close>

theorem exclusive_selection:
  "(toolbar_as_built s \<longrightarrow> t \<in> set (map fst (toolbar_buttons s)) \<longrightarrow>
      pressed_buttons (select_tool t s) = [t]
    \<and> current_tool (select_tool t s) = Some t
    \<and> status_var (select_tool t s) = ''Selected tool: '' @ t)
   \<and> (ts \<noteq> [] \<longrightarrow> set ts \<subseteq> set tool_names \<longrightarrow>
      pressed_buttons (run (map Tool_click ts) build) = [last ts]
    \<and> current_tool (run (map Tool_click ts) build) = Some (last ts)
    \<and> status_var (run (map Tool_click ts) build) = ''Selected tool: '' @ last ts)
   \<and> exclusive (run es build)"
proof (intro conjI impI)
  assume built: "toolbar_as_built s" and t: "t \<in> set (map fst (toolbar_buttons s))"
  from t have "t \<in> set tool_names" by (simp only: keys_as_built [OF built])
  then show "pressed_buttons (select_tool t s) = [t]"
    by (simp add: pressed_buttons_select_tool keys_as_built [OF built] filter_tool_names)
  show "current_tool (select_tool t s) = Some t"
    and "status_var (select_tool t s) = ''Selected tool: '' @ t"
    by (simp_all add: select_tool_fields)
next
  assume ts: "ts \<noteq> []" "set ts \<subseteq> set tool_names"
  note last = tool_clicks_select_last [OF toolbar_as_built_build ts]
  from last show "pressed_buttons (run (map Tool_click ts) build) = [last ts]" by simp
  from last show "current_tool (run (map Tool_click ts) build) = Some (last ts)" by simp
  from last show "status_var (run (map Tool_click ts) build) = ''Selected tool: '' @ last ts"
    by simp
next
  show "exclusive (run es build)"
    by (rule exclusive_run [OF toolbar_as_built_build exclusive_build])
qed

theorem exclusive_selection_witness:
  "toolbar_as_built build \<and> ''Cut'' \<in> set (map fst (toolbar_buttons build))
   \<and> pressed_buttons (select_tool ''Cut'' build) = [''Cut'']
   \<and> [''Adjust'', ''Cut''] \<noteq> [] \<and> set [''Adjust'', ''Cut''] \<subseteq> set tool_names
   \<and> pressed_buttons (run (map Tool_click [''Adjust'', ''Cut'']) build) = [''Cut'']
   \<and> current_tool (run (map Tool_click [''Adjust'', ''Cut'']) build) = Some ''Cut''
   \<and> status_var (run (map Tool_click [''Adjust'', ''Cut'']) build) = ''Selected tool: Cut''
   \<and> exclusive (run [Playback_click Prev, Toggle_click adjust_toggle] build)"
  using exclusive_selection [of build "''Cut''" "[''Adjust'', ''Cut'']"
      "[Playback_click Prev, Toggle_click adjust_toggle]"]
    toolbar_as_built_build
  by (simp add: toolbar_buttons_build_keys tool_names_def del: step.simps)


subsection \<open>The timeline\<close>

text \<open>
  Claim C7. At startup the timeline holds the 12 blocks that the one call of
  \<^verbatim>\<open>populate_timeline\<close> creates: block \<open>i\<close>, for \<open>i\<close> from 0 to 11, is labelled
  \<open>Clip \<close> and \<open>i + 1\<close> on one line and \<open>00:0\<close>, \<open>i\<close>, \<open>:00\<close> on the next (so the
  last two blocks read \<open>00:010:00\<close> and \<open>00:011:00\<close>). No sequence of user inputs
  adds, removes or relabels a block.
\<close>

theorem timeline_static:
  "timeline_inner build = map clip_label [0..<12]
   \<and> length (timeline_inner build) = 12
   \<and> (i < 12 \<longrightarrow>
        timeline_inner build ! i
          = ''Clip '' @ str_nat (i + 1) @ [CHR 0x0A] @ ''00:0'' @ str_nat i @ '':00'')
   \<and> timeline_inner (run es build) = timeline_inner build"
  by (simp add: timeline_inner_build timeline_inner_run clip_label_def)

theorem timeline_static_witness:
  "(11::nat) < 12
   \<and> timeline_inner build ! 11 = ''Clip 12'' @ [CHR 0x0A] @ ''00:011:00''
   \<and> timeline_inner (run [Tool_click ''Cut'', Toggle_click adjust_toggle] build)
       = timeline_inner build"
  using timeline_static [of 11 "[Tool_click ''Cut'', Toggle_click adjust_toggle]"]
  by (simp add: str_nat.simps clip_label_11)


subsection \<open>Collapsible sections\<close>

text \<open>
  Claim C8. A toggle of a section changes nothing but the packing list of the
  properties frame and the text of the section's header button. It flips whether the
  section's frame is viewable, leaves every other frame viewable or hidden as it was
  and in the same relative order, and sets the header text to the collapsed or expanded
  prefix followed by the button's original text; the other header button is untouched.
  Toggling twice gives back the visibility the section had, with the header prefix that
  belongs to it. The status text, the current tool and the slider variables are not
  changed by a toggle.
\<close>

theorem toggle_flips_visibility:
  "toggle_frame f b s =
     s\<lparr>prop_inner := prop_inner (toggle_frame f b s),
       toggle_buttons := toggle_buttons (toggle_frame f b s)\<rparr>
   \<and> winfo_viewable f (toggle_frame f b s) = (\<not> winfo_viewable f s)
   \<and> (f' \<noteq> f \<longrightarrow> winfo_viewable f' (toggle_frame f b s) = winfo_viewable f' s)
   \<and> filter (\<lambda>w. w \<noteq> f) (prop_inner (toggle_frame f b s)) = filter (\<lambda>w. w \<noteq> f) (prop_inner s)
   \<and> toggle_buttons (toggle_frame f b s) b =
       \<lparr>tgl_text = (if winfo_viewable f s then collapsed_prefix else expanded_prefix)
                    @ original_text (toggle_buttons s b),
        original_text = original_text (toggle_buttons s b)\<rparr>
   \<and> (b' \<noteq> b \<longrightarrow> toggle_buttons (toggle_frame f b s) b' = toggle_buttons s b')
   \<and> winfo_viewable f (toggle_frame f b (toggle_frame f b s)) = winfo_viewable f s
   \<and> tgl_text (toggle_buttons (toggle_frame f b (toggle_frame f b s)) b) =
       (if winfo_viewable f s then expanded_prefix else collapsed_prefix)
       @ original_text (toggle_buttons s b)
   \<and> status_var (toggle_frame f b s) = status_var s
   \<and> current_tool (toggle_frame f b s) = current_tool s
   \<and> adjustments_vars (toggle_frame f b s) = adjustments_vars s
   \<and> color_vars (toggle_frame f b s) = color_vars s"
  by (simp add: toggle_frame_eq winfo_viewable_def filter_removeAll_same)

theorem toggle_flips_visibility_witness:
  "color_frame \<noteq> adjust_frame \<and> color_toggle \<noteq> adjust_toggle
   \<and> winfo_viewable adjust_frame build
   \<and> \<not> winfo_viewable adjust_frame (toggle_frame adjust_frame adjust_toggle build)
   \<and> winfo_viewable color_frame (toggle_frame adjust_frame adjust_toggle build)
   \<and> tgl_text (toggle_buttons (toggle_frame adjust_frame adjust_toggle build) adjust_toggle)
       = collapsed_prefix @ ''Adjustments''
   \<and> toggle_buttons (toggle_frame adjust_frame adjust_toggle build) color_toggle
       = toggle_buttons build color_toggle
   \<and> winfo_viewable adjust_frame
       (toggle_frame adjust_frame adjust_toggle (toggle_frame adjust_frame adjust_toggle build))
   \<and> tgl_text (toggle_buttons
         (toggle_frame adjust_frame adjust_toggle (toggle_frame adjust_frame adjust_toggle build))
         adjust_toggle)
       = tgl_text (toggle_buttons build adjust_toggle)"
  using toggle_flips_visibility [of adjust_frame adjust_toggle build color_frame color_toggle]
  by (simp add: winfo_viewable_def prop_inner_build toggle_buttons_build)


subsection \<open>Buttons and the status text\<close>

text \<open>
  Claim C2 as stated, that every button click updates the status text, does not hold:
  not every button writes the status text. After a click on Play/Pause the status
  reads \<open>Action: Play/Pause\<close>, and it still reads so after a click on either section
  header button, on the menu commands Exit and About, and on Import or Export when the
  file dialog is cancelled: \<^verbatim>\<open>toggle_frame\<close>, \<^verbatim>\<open>root.quit\<close> and the message box
  never touch \<^verbatim>\<open>status_var\<close>, and \<^verbatim>\<open>import_video\<close> and \<^verbatim>\<open>export_video\<close> guard the
  placeholder action with \<^verbatim>\<open>if filename\<close>.
\<close>

theorem some_buttons_keep_status:
  "status_var (run [Playback_click Play_Pause] build) = ''Action: Play/Pause''
   \<and> status_var (run [Playback_click Play_Pause, Toggle_click adjust_toggle] build)
       = ''Action: Play/Pause''
   \<and> status_var (run [Playback_click Play_Pause, Toggle_click color_toggle] build)
       = ''Action: Play/Pause''
   \<and> status_var (run [Playback_click Play_Pause, Menu_click Exit] build) = ''Action: Play/Pause''
   \<and> status_var (run [Playback_click Play_Pause, Menu_click About] build) = ''Action: Play/Pause''
   \<and> status_var (run [Playback_click Play_Pause, Import_click []] build) = ''Action: Play/Pause''
   \<and> status_var (run [Playback_click Play_Pause, Export_click []] build) = ''Action: Play/Pause''"
  by (simp add: run_def toolbar_buttons_toggle_frame placeholder_action_eq
        import_video_def export_video_def)

text \<open>
  Claim C2, amended. The four tool buttons (with the toolbar as built), the three
  playback buttons and the menu commands New Project, Open, Save, Undo and Redo set the
  status text when invoked; Import and Export set it when the file dialog returns a
  non-empty path. Import and Export with a cancelled dialog, the menu commands Exit and
  About, and the two section header buttons leave the status text as it was.
\<close>

theorem buttons_setting_status:
  "(toolbar_as_built s \<longrightarrow> n \<in> set tool_names \<longrightarrow>
      status_var (step (Tool_click n) s) = ''Selected tool: '' @ n)
   \<and> status_var (step (Playback_click Prev) s) = ''Action: Prev Frame''
   \<and> status_var (step (Playback_click Play_Pause) s) = ''Action: Play/Pause''
   \<and> status_var (step (Playback_click Next) s) = ''Action: Next Frame''
   \<and> status_var (step (Menu_click New_Project) s) = ''Action: New Project''
   \<and> status_var (step (Menu_click Open_Project) s) = ''Action: Open Project''
   \<and> status_var (step (Menu_click Save_Project) s) = ''Action: Save Project''
   \<and> status_var (step (Menu_click Undo) s) = ''Action: Undo''
   \<and> status_var (step (Menu_click Redo) s) = ''Action: Redo''
   \<and> (f \<noteq> [] \<longrightarrow>
        status_var (step (Import_click f) s) = ''Action: Imported video: '' @ f
      \<and> status_var (step (Export_click f) s) = ''Action: Exported video to: '' @ f)
   \<and> status_var (step (Import_click []) s) = status_var s
   \<and> status_var (step (Export_click []) s) = status_var s
   \<and> status_var (step (Menu_click Exit) s) = status_var s
   \<and> status_var (step (Menu_click About) s) = status_var s
   \<and> status_var (step (Toggle_click b) s) = status_var s"
proof -
  have tools: "status_var (step (Tool_click n) s) = ''Selected tool: '' @ n"
    if "toolbar_as_built s" and "n \<in> set tool_names"
    using tool_click_selects(3) [OF that] .
  have toggles: "status_var (step (Toggle_click b) s) = status_var s"
    by (rule status_var_toggle_click)
  show ?thesis
    using tools toggles
    by (simp add: status_var_placeholder import_video_def export_video_def
          del: step.simps(1,6,7))
qed

theorem buttons_setting_status_witness:
  "toolbar_as_built build \<and> ''Cut'' \<in> set tool_names \<and> ''clip.mp4'' \<noteq> []
   \<and> status_var (step (Tool_click ''Cut'') build) = ''Selected tool: Cut''
   \<and> status_var (step (Import_click ''clip.mp4'') build) = ''Action: Imported video: clip.mp4''
   \<and> status_var (step (Export_click ''clip.mp4'') build) = ''Action: Exported video to: clip.mp4''
   \<and> status_var (step (Toggle_click adjust_toggle) build) = ''Selected tool: Move''"
  using buttons_setting_status [of build "''Cut''" "''clip.mp4''" adjust_toggle]
    toolbar_as_built_build
  by (simp add: tool_names_def status_var_build del: step.simps)


subsection \<open>Value labels of the sliders\<close>

text \<open>
  Claim C1 says that the value label of a slider displays the value its variable was
  set to. The updater closures do pass the formatted value as the label's \<^verbatim>\<open>text\<close>
  option, but each label was built with a \<^verbatim>\<open>textvariable\<close> (lines 314 and 345), bound
  to a \<^verbatim>\<open>StringVar\<close> that no updater writes and nothing keeps, and a ttk label shows
  its text variable in place of its text. After the brightness variable is set to 5 the
  label's text option is \<open>5.00\<close> and the label shows the empty string; likewise for
  the colour slider \<open>r\<close> set to 200.
\<close>

theorem value_labels_not_updated:
  "map_of (adjustments_vars (set_adjustment_var ''brightness'' 5 build)) ''brightness'' = Some 5
   \<and> map_option lbl_text
        (map_of (adjust_val_lbls (set_adjustment_var ''brightness'' 5 build)) ''brightness'')
       = Some ''5.00''
   \<and> map_option displayed
        (map_of (adjust_val_lbls (set_adjustment_var ''brightness'' 5 build)) ''brightness'')
       = Some []
   \<and> map_of (color_vars (set_color_var ''r'' 200 build)) ''r'' = Some 200
   \<and> map_option lbl_text (map_of (color_val_lbls (set_color_var ''r'' 200 build)) ''r'')
       = Some ''200''
   \<and> map_option displayed (map_of (color_val_lbls (set_color_var ''r'' 200 build)) ''r'')
       = Some []"
  by (simp add: set_adjustment_var_def set_color_var_def adjustments_vars_build
        color_vars_build adjust_val_lbls_build color_val_lbls_build adjustment_names_def
        color_names_def new_val_lbl_def displayed_def make_updater_def make_color_updater_def
        DoubleVar_get_def IntVar_get_def fmt_2f_5 str_int_200)

end
